theory Spec2Isabelle
  imports Complex_Main "HOL-Library.Multiset"
begin

section \<open>Numbers and series\<close>

text \<open>
  The program computes on pandas/NumPy double-precision series. A value is modelled as
  a \<open>pyfloat\<close>: not-a-number (pandas' marker of a missing value), either infinity, or a
  finite number. Finite arithmetic is exact (rounding, overflow and the sign of zero
  are not modelled); the special values follow IEEE 754, as NumPy does: a missing value
  propagates, \<open>0/0\<close> and \<open>inf - inf\<close> are not-a-number, \<open>x/0\<close> is an infinity, and
  every comparison with not-a-number is false.
\<close>

datatype pyfloat = NaN | NInf | Fin real | PInf

datatype error = KeyError | ValueError | ZeroDivisionError | HTTPException nat

fun isna :: "pyfloat \<Rightarrow> bool" where
  "isna NaN = True"
| "isna _ = False"

fun fneg :: "pyfloat \<Rightarrow> pyfloat" where
  "fneg NaN = NaN"
| "fneg NInf = PInf"
| "fneg PInf = NInf"
| "fneg (Fin a) = Fin (- a)"

fun fadd :: "pyfloat \<Rightarrow> pyfloat \<Rightarrow> pyfloat" where
  "fadd NaN _ = NaN"
| "fadd _ NaN = NaN"
| "fadd (Fin a) (Fin b) = Fin (a + b)"
| "fadd PInf NInf = NaN"
| "fadd NInf PInf = NaN"
| "fadd PInf _ = PInf"
| "fadd NInf _ = NInf"
| "fadd _ PInf = PInf"
| "fadd _ NInf = NInf"

definition fsub :: "pyfloat \<Rightarrow> pyfloat \<Rightarrow> pyfloat" where
  "fsub a b = fadd a (fneg b)"

text \<open>The sign of a value: \<open>None\<close> for not-a-number, else \<open>-1\<close>, \<open>0\<close> or \<open>1\<close>.\<close>

fun fsign :: "pyfloat \<Rightarrow> int option" where
  "fsign NaN = None"
| "fsign NInf = Some (- 1)"
| "fsign PInf = Some 1"
| "fsign (Fin a) = Some (if a < 0 then - 1 else if a = 0 then 0 else 1)"

definition inf_of_sign :: "int \<Rightarrow> pyfloat" where
  "inf_of_sign s = (if s = 0 then NaN else if s < 0 then NInf else PInf)"

fun fmul :: "pyfloat \<Rightarrow> pyfloat \<Rightarrow> pyfloat" where
  "fmul (Fin a) (Fin b) = Fin (a * b)"
| "fmul a b = (case (fsign a, fsign b) of
      (Some s, Some t) \<Rightarrow> inf_of_sign (s * t)
    | _ \<Rightarrow> NaN)"

fun fdiv :: "pyfloat \<Rightarrow> pyfloat \<Rightarrow> pyfloat" where
  "fdiv (Fin a) (Fin b) =
     (if b \<noteq> 0 then Fin (a / b)
      else if a = 0 then NaN else if a < 0 then NInf else PInf)"
| "fdiv NaN _ = NaN"
| "fdiv _ NaN = NaN"
| "fdiv (Fin a) _ = Fin 0"
| "fdiv PInf (Fin b) = (if b < 0 then NInf else PInf)"
| "fdiv NInf (Fin b) = (if b < 0 then PInf else NInf)"
| "fdiv _ _ = NaN"

text \<open>\<open>flt a b\<close> is the comparison \<open>a < b\<close>; \<open>a > b\<close> is written \<open>flt b a\<close>.\<close>

fun flt :: "pyfloat \<Rightarrow> pyfloat \<Rightarrow> bool" where
  "flt NaN _ = False"
| "flt _ NaN = False"
| "flt (Fin a) (Fin b) = (a < b)"
| "flt PInf _ = False"
| "flt _ NInf = False"
| "flt _ _ = True"

definition fabs :: "pyfloat \<Rightarrow> pyfloat" where
  "fabs x = (if flt x (Fin 0) then fneg x else x)"

text \<open>\<open>Series.fillna(v)\<close>, \<open>Series.fillna(other)\<close>, \<open>Series.shift(1)\<close>, \<open>Series.diff()\<close>.
  A series is the list of its values in the order of the date index it is aligned to;
  all series of one frame share the frame's index, so an elementwise operation pairs the
  values position by position.\<close>

definition fillna :: "pyfloat \<Rightarrow> pyfloat list \<Rightarrow> pyfloat list" where
  "fillna v xs = map (\<lambda>x. if isna x then v else x) xs"

definition fillna_series :: "pyfloat list \<Rightarrow> pyfloat list \<Rightarrow> pyfloat list" where
  "fillna_series other xs = map2 (\<lambda>x y. if isna x then y else x) xs other"

definition shift1 :: "pyfloat list \<Rightarrow> pyfloat list" where
  "shift1 xs = (if xs = [] then [] else NaN # butlast xs)"

definition series_diff :: "pyfloat list \<Rightarrow> pyfloat list" where
  "series_diff xs = map2 fsub xs (shift1 xs)"

text \<open>\<open>Series.pct_change()\<close> computes \<open>x / x.shift(1) - 1\<close>.\<close>

definition pct_change :: "pyfloat list \<Rightarrow> pyfloat list" where
  "pct_change xs = map2 (\<lambda>x p. fsub (fdiv x p) (Fin 1)) xs (shift1 xs)"

text \<open>\<open>Series.cumprod()\<close> and \<open>Series.cummax()\<close> skip missing values: a missing entry
  stays missing in the result and does not enter the running product or maximum.\<close>

fun cumprod_from :: "pyfloat \<Rightarrow> pyfloat list \<Rightarrow> pyfloat list" where
  "cumprod_from acc [] = []"
| "cumprod_from acc (x # xs) =
     (if isna x then NaN # cumprod_from acc xs
      else fmul acc x # cumprod_from (fmul acc x) xs)"

definition cumprod :: "pyfloat list \<Rightarrow> pyfloat list" where
  "cumprod xs = cumprod_from (Fin 1) xs"

definition fmax :: "pyfloat \<Rightarrow> pyfloat \<Rightarrow> pyfloat" where
  "fmax a b = (if flt a b then b else a)"

definition fmin :: "pyfloat \<Rightarrow> pyfloat \<Rightarrow> pyfloat" where
  "fmin a b = (if flt b a then b else a)"

fun cummax_from :: "pyfloat option \<Rightarrow> pyfloat list \<Rightarrow> pyfloat list" where
  "cummax_from acc [] = []"
| "cummax_from acc (x # xs) =
     (if isna x then NaN # cummax_from acc xs
      else (let m = (case acc of None \<Rightarrow> x | Some a \<Rightarrow> fmax a x)
            in m # cummax_from (Some m) xs))"

definition cummax :: "pyfloat list \<Rightarrow> pyfloat list" where
  "cummax xs = cummax_from None xs"

text \<open>\<open>Series.min()\<close> skips missing values; it is not-a-number when no value is left.\<close>

definition series_min :: "pyfloat list \<Rightarrow> pyfloat" where
  "series_min xs =
     (case filter (\<lambda>x. \<not> isna x) xs of [] \<Rightarrow> NaN | v # vs \<Rightarrow> fold fmin vs v)"


section \<open>Strategies\<close>

text \<open>
  A frame is its date index (dates as day numbers) and its columns by name; every column
  is a series aligned to the index. Reading a column that the frame does not have raises
  \<open>KeyError\<close>. The frame of prices carries the \<open>close\<close> column, which the database
  declares non-null: a list of finite numbers.
\<close>

record dataframe =
  df_index :: "int list"
  df_cols :: "string \<rightharpoonup> pyfloat list"

record price_frame =
  p_index :: "int list"
  p_close :: "real list"

definition getitem :: "dataframe \<Rightarrow> string \<Rightarrow> error + pyfloat list" where
  "getitem df c = (case df_cols df c of None \<Rightarrow> Inl KeyError | Some col \<Rightarrow> Inr col)"

datatype strategy =
  CompositeScoreStrategy | RSIMeanReversionStrategy | GoldenCrossStrategy | FearGreedStrategy

text \<open>\<open>position[mask] = v\<close> and \<open>Series.ffill()\<close>.\<close>

definition assign_where :: "bool list \<Rightarrow> pyfloat \<Rightarrow> pyfloat list \<Rightarrow> pyfloat list" where
  "assign_where msk v xs = map2 (\<lambda>m x. if m then v else x) msk xs"

fun ffill_from :: "pyfloat \<Rightarrow> pyfloat list \<Rightarrow> pyfloat list" where
  "ffill_from lst [] = []"
| "ffill_from lst (x # xs) =
     (if isna x then lst # ffill_from lst xs else x # ffill_from x xs)"

definition ffill :: "pyfloat list \<Rightarrow> pyfloat list" where
  "ffill xs = ffill_from NaN xs"

text \<open>\<open>CompositeScoreStrategy.generate_signals\<close>, statement by statement. The signals
  frame and the prices share one index (\<open>run\<close> restricts both to their common dates),
  so \<open>reindex(prices.index)\<close> leaves a column as it is.\<close>

definition buy_threshold :: real where "buy_threshold = 0.15"
definition sell_threshold :: real where "sell_threshold = - 0.15"

definition composite_generate_signals :: "price_frame \<Rightarrow> dataframe \<Rightarrow> error + pyfloat list" where
  "composite_generate_signals prices signals =
     (case getitem signals ''composite_score'' of
        Inl e \<Rightarrow> Inl e
      | Inr col \<Rightarrow>
          (let score = fillna (Fin 0) col;
               position = replicate (length (p_index prices)) (Fin 0);
               position = assign_where (map (\<lambda>s. flt (Fin buy_threshold) s) score) (Fin 1) position;
               position = assign_where (map (\<lambda>s. flt s (Fin sell_threshold)) score) (Fin 0) position
           in Inr (fillna (Fin 0) (ffill position))))"

text \<open>The loop of \<open>RSIMeanReversionStrategy.generate_signals\<close>: the flag
  \<open>in_position\<close> is the loop's state, and each row writes one exposure.\<close>

fun rsi_loop :: "bool \<Rightarrow> pyfloat list \<Rightarrow> pyfloat list" where
  "rsi_loop in_position [] = []"
| "rsi_loop in_position (x # xs) =
     (let in_position' =
            (if \<not> in_position \<and> flt x (Fin 30) then True
             else if in_position \<and> flt (Fin 70) x then False
             else in_position)
      in (if in_position' then Fin 1 else Fin 0) # rsi_loop in_position' xs)"

definition rsi_generate_signals :: "price_frame \<Rightarrow> dataframe \<Rightarrow> error + pyfloat list" where
  "rsi_generate_signals prices signals =
     (case getitem signals ''rsi_14'' of
        Inl e \<Rightarrow> Inl e
      | Inr col \<Rightarrow> Inr (rsi_loop False (fillna (Fin 50) col)))"

definition golden_cross_generate_signals :: "price_frame \<Rightarrow> dataframe \<Rightarrow> error + pyfloat list" where
  "golden_cross_generate_signals prices signals =
     (case getitem signals ''sma_50'' of
        Inl e \<Rightarrow> Inl e
      | Inr sma50 \<Rightarrow>
          (case getitem signals ''sma_200'' of
             Inl e \<Rightarrow> Inl e
           | Inr sma200 \<Rightarrow>
               Inr (fillna (Fin 0)
                     (map2 (\<lambda>a b. if flt b a then Fin 1 else Fin 0) sma50 sma200))))"

fun fear_greed_loop :: "bool \<Rightarrow> pyfloat list \<Rightarrow> pyfloat list" where
  "fear_greed_loop in_position [] = []"
| "fear_greed_loop in_position (x # xs) =
     (let in_position' =
            (if \<not> in_position \<and> flt x (Fin 25) then True
             else if in_position \<and> flt (Fin 75) x then False
             else in_position)
      in (if in_position' then Fin 1 else Fin 0) # fear_greed_loop in_position' xs)"

definition fear_greed_generate_signals :: "price_frame \<Rightarrow> dataframe \<Rightarrow> error + pyfloat list" where
  "fear_greed_generate_signals prices signals =
     (case getitem signals ''fear_greed_index'' of
        Inl e \<Rightarrow> Inl e
      | Inr col \<Rightarrow> Inr (fear_greed_loop False (fillna (Fin 50) col)))"

fun generate_signals :: "strategy \<Rightarrow> price_frame \<Rightarrow> dataframe \<Rightarrow> error + pyfloat list" where
  "generate_signals CompositeScoreStrategy = composite_generate_signals"
| "generate_signals RSIMeanReversionStrategy = rsi_generate_signals"
| "generate_signals GoldenCrossStrategy = golden_cross_generate_signals"
| "generate_signals FearGreedStrategy = fear_greed_generate_signals"

section \<open>Portfolio simulation\<close>

record portfolio =
  pf_index :: "int list"
  pf_close :: "real list"
  pf_position :: "pyfloat list"
  pf_asset_return :: "pyfloat list"
  pf_strategy_return :: "pyfloat list"
  pf_portfolio_value :: "pyfloat list"
  pf_is_entry :: "bool list"
  pf_is_exit :: "bool list"

text \<open>\<open>BacktestEngine._simulate_portfolio\<close>. The exposure series comes from
  \<open>generate_signals\<close> on the same prices, so it already has the index of \<open>close\<close>.\<close>

definition simulate_portfolio ::
  "price_frame \<Rightarrow> pyfloat list \<Rightarrow> real \<Rightarrow> real \<Rightarrow> real \<Rightarrow> portfolio" where
  "simulate_portfolio prices signals0 initial_capital commission slippage =
     (let close = p_close prices;
          signals = fillna (Fin 0) signals0;
          position_changes = fillna_series signals (series_diff signals);
          entries = map (\<lambda>c. flt (Fin 0) c) position_changes;
          exits = map (\<lambda>c. flt c (Fin 0)) position_changes;
          asset_returns = fillna (Fin 0) (pct_change (map Fin close));
          cost = map2 (\<lambda>e x. Fin ((commission + slippage) * (if e \<or> x then 1 else 0)))
                   entries exits;
          strategy_returns =
            map2 fsub (map2 fmul (fillna (Fin 0) (shift1 signals)) asset_returns) cost;
          portfolio_value =
            map (fmul (Fin initial_capital)) (cumprod (map (fadd (Fin 1)) strategy_returns))
      in \<lparr> pf_index = p_index prices, pf_close = close, pf_position = signals,
           pf_asset_return = asset_returns, pf_strategy_return = strategy_returns,
           pf_portfolio_value = portfolio_value, pf_is_entry = entries,
           pf_is_exit = exits \<rparr>)"

text \<open>The part of \<open>BacktestEngine.run\<close> between the loading of the data and the
  metrics: the check of the history's length, the strategy's exposures, the simulation.\<close>

definition run_portfolio ::
  "strategy \<Rightarrow> price_frame \<Rightarrow> dataframe \<Rightarrow> real \<Rightarrow> real \<Rightarrow> real \<Rightarrow> error + portfolio" where
  "run_portfolio strategy prices signals_df initial_capital commission slippage =
     (if length (p_index prices) < 30 then Inl ValueError
      else (case generate_signals strategy prices signals_df of
              Inl e \<Rightarrow> Inl e
            | Inr raw_signals \<Rightarrow>
                Inr (simulate_portfolio prices raw_signals initial_capital commission slippage)))"

text \<open>A frame is well formed when each of its columns has one value per date of the
  index, as every pandas frame has.\<close>

definition wf_frame :: "nat \<Rightarrow> dataframe \<Rightarrow> bool" where
  "wf_frame n df \<longleftrightarrow> length (df_index df) = n \<and> (\<forall>c col. df_cols df c = Some col \<longrightarrow> length col = n)"

definition wf_prices :: "price_frame \<Rightarrow> bool" where
  "wf_prices prices \<longleftrightarrow> length (p_close prices) = length (p_index prices)"

section \<open>Performance metrics\<close>

text \<open>\<open>a <= b\<close> on values, false when either side is not-a-number.\<close>

definition fle :: "pyfloat \<Rightarrow> pyfloat \<Rightarrow> bool" where
  "fle a b \<longleftrightarrow> flt a b \<or> (\<not> isna a \<and> a = b)"

text \<open>\<open>Series.std()\<close>: the sample standard deviation (one degree of freedom removed) of
  the values that are not missing; not-a-number when fewer than two values are left, or
  when a value is infinite (its distance to the mean is \<open>inf - inf\<close>).\<close>

fun finite_value :: "pyfloat \<Rightarrow> real option" where
  "finite_value (Fin r) = Some r"
| "finite_value _ = None"

definition series_std :: "pyfloat list \<Rightarrow> pyfloat" where
  "series_std xs =
     (let vs = filter (\<lambda>x. \<not> isna x) xs; n = length vs
      in if n < 2 then NaN
         else if \<exists>v \<in> set vs. finite_value v = None then NaN
         else (let rs = map (\<lambda>v. the (finite_value v)) vs;
                   avg = sum_list rs / real n
               in Fin (sqrt (sum_list (map (\<lambda>r. (r - avg)\<^sup>2) rs) / real (n - 1)))))"

definition TRADING_DAYS_PER_YEAR :: real where "TRADING_DAYS_PER_YEAR = 365"
definition RISK_FREE_RATE :: real where "RISK_FREE_RATE = 0.045"

text \<open>The three statements of \<open>BacktestEngine._compute_metrics\<close> that compute the
  Sortino ratio, from the annualised return computed before them and the daily
  strategy returns.\<close>

definition sortino_ratio :: "pyfloat \<Rightarrow> pyfloat list \<Rightarrow> pyfloat" where
  "sortino_ratio annualized_return daily_returns =
     (let downside = filter (\<lambda>r. flt r (Fin 0)) daily_returns;
          downside_std = fmul (series_std downside) (Fin (sqrt TRADING_DAYS_PER_YEAR))
      in if flt (Fin 0) downside_std
         then fdiv (fsub annualized_return (Fin RISK_FREE_RATE)) downside_std
         else Fin 0)"

text \<open>The three statements of \<open>_compute_metrics\<close> that compute the maximum drawdown of
  the equity curve \<open>pv\<close>.\<close>

definition max_drawdown :: "pyfloat list \<Rightarrow> pyfloat" where
  "max_drawdown pv =
     (let rolling_max = cummax pv;
          drawdown = map2 (\<lambda>v m. fdiv (fsub v m) m) pv rolling_max
      in series_min drawdown)"

section \<open>Trade log\<close>

record trade =
  entry_date :: int
  exit_date :: int
  entry_price :: real
  exit_price :: real
  trade_return :: real
  duration_days :: int
  profitable :: bool

text \<open>Python's \<open>round(x, ndigits)\<close> on a float: to the nearest multiple of
  \<open>10 ^ (- ndigits)\<close>, a tie going to the even one.\<close>

definition py_round :: "real \<Rightarrow> nat \<Rightarrow> real" where
  "py_round x ndigits =
     (let y = x * 10 ^ ndigits; f = \<lfloor>y\<rfloor>; d = y - of_int f;
          n = (if d < 1 / 2 then f else if 1 / 2 < d then f + 1
               else if even f then f else f + 1)
      in of_int n / 10 ^ ndigits)"

text \<open>The dictionary that \<open>_build_trade_log\<close> appends for a trade entered at
  \<open>entry_date\<close> and left at \<open>idx\<close>. The rows of the portfolio frame mix floats and
  booleans, so \<open>iterrows\<close> hands out Python floats, and Python's float division raises
  \<open>ZeroDivisionError\<close> on an entry price of 0. Dates are day numbers; the log prints
  them as text.\<close>

definition make_trade :: "int \<Rightarrow> real \<Rightarrow> int \<Rightarrow> real \<Rightarrow> error + trade" where
  "make_trade entry_d entry_p idx close =
     (if entry_p = 0 then Inl ZeroDivisionError
      else (let trade_ret = (close - entry_p) / entry_p
            in Inr \<lparr> entry_date = entry_d, exit_date = idx,
                     entry_price = py_round entry_p 6, exit_price = py_round close 6,
                     trade_return = py_round trade_ret 6, duration_days = idx - entry_d,
                     profitable = (0 < trade_ret) \<rparr>))"

text \<open>The loop of \<open>_build_trade_log\<close> over the rows \<open>(idx, close, is_entry, is_exit)\<close>;
  its state is the open entry (\<open>entry_date\<close>, \<open>entry_price\<close>; \<open>None\<close> when flat) and
  the trades appended so far.\<close>

fun trade_loop ::
  "(int \<times> real) option \<Rightarrow> trade list \<Rightarrow> (int \<times> real \<times> bool \<times> bool) list \<Rightarrow>
   error + ((int \<times> real) option \<times> trade list)" where
  "trade_loop entry trades [] = Inr (entry, trades)"
| "trade_loop entry trades ((idx, close, is_entry, is_exit) # rows) =
     (case entry of
        None \<Rightarrow>
          (if is_entry then trade_loop (Some (idx, close)) trades rows
           else trade_loop None trades rows)
      | Some (entry_d, entry_p) \<Rightarrow>
          (if is_exit then
             (case make_trade entry_d entry_p idx close of
                Inl e \<Rightarrow> Inl e
              | Inr t \<Rightarrow> trade_loop None (trades @ [t]) rows)
           else trade_loop (Some (entry_d, entry_p)) trades rows))"

text \<open>The block after the loop: a position still open is closed at the last row.\<close>

definition close_open_position ::
  "(int \<times> real) option \<Rightarrow> trade list \<Rightarrow> int \<Rightarrow> real \<Rightarrow> error + trade list" where
  "close_open_position entry trades last_idx last_price =
     (case entry of
        None \<Rightarrow> Inr trades
      | Some (entry_d, entry_p) \<Rightarrow>
          (case make_trade entry_d entry_p last_idx last_price of
             Inl e \<Rightarrow> Inl e
           | Inr t \<Rightarrow> Inr (trades @ [t])))"

definition build_trade_log :: "portfolio \<Rightarrow> error + trade list" where
  "build_trade_log pf =
     (case trade_loop None []
             (zip (pf_index pf) (zip (pf_close pf) (zip (pf_is_entry pf) (pf_is_exit pf)))) of
        Inl e \<Rightarrow> Inl e
      | Inr (entry, trades) \<Rightarrow>
          close_open_position entry trades (last (pf_index pf)) (last (pf_close pf)))"

text \<open>
  The trade log in the words of the specification, to compare with the code: a machine
  with the states flat and long scans the rows \<open>(date, close, exposure)\<close>; a trade opens
  where the exposure goes from 0 to 1, at that day's close; it closes where the exposure
  goes from 1 to 0, or at the final date if it is still open. A trade records its return
  \<open>exit / entry - 1\<close> and its duration in days; the log keeps six decimals of the prices
  and of the return.
\<close>

datatype position_state = FLAT | LONG int real

definition spec_trade :: "int \<Rightarrow> real \<Rightarrow> int \<Rightarrow> real \<Rightarrow> trade" where
  "spec_trade entry_d entry_p exit_d exit_p =
     \<lparr> entry_date = entry_d, exit_date = exit_d,
       entry_price = py_round entry_p 6, exit_price = py_round exit_p 6,
       trade_return = py_round (exit_p / entry_p - 1) 6,
       duration_days = exit_d - entry_d,
       profitable = (0 < exit_p / entry_p - 1) \<rparr>"

fun spec_trade_log ::
  "position_state \<Rightarrow> (int \<times> real \<times> pyfloat) list \<Rightarrow> int \<times> real \<Rightarrow> trade list" where
  "spec_trade_log FLAT [] final = []"
| "spec_trade_log (LONG entry_d entry_p) [] final =
     [spec_trade entry_d entry_p (fst final) (snd final)]"
| "spec_trade_log FLAT ((d, c, exposure) # rows) final =
     (if exposure = Fin 1 then spec_trade_log (LONG d c) rows final
      else spec_trade_log FLAT rows final)"
| "spec_trade_log (LONG entry_d entry_p) ((d, c, exposure) # rows) final =
     (if exposure = Fin 0 then spec_trade entry_d entry_p d c # spec_trade_log FLAT rows final
      else spec_trade_log (LONG entry_d entry_p) rows final)"

section \<open>Strategy comparison\<close>

text \<open>The result of a run and the response built from it. The Sharpe ratio is a finite
  number in every result: it is computed only when the standard deviation of the daily
  returns is positive, hence finite, and is 0.0 otherwise. The other metrics may be
  missing or infinite.\<close>

record backtest_result =
  res_coin :: string
  res_symbol :: string
  res_strategy_name :: string
  res_strategy_params :: "(string \<times> real) list"
  res_start_date :: int
  res_end_date :: int
  res_initial_capital :: real
  res_total_return :: pyfloat
  res_annualized_return :: pyfloat
  res_benchmark_return :: pyfloat
  res_sharpe_ratio :: real
  res_sortino_ratio :: pyfloat
  res_calmar_ratio :: pyfloat
  res_max_drawdown :: pyfloat
  res_volatility_annualized :: pyfloat
  res_win_rate :: real
  res_total_trades :: nat
  res_avg_trade_duration_days :: real
  res_equity_curve :: "(int \<times> pyfloat \<times> pyfloat) list"
  res_trade_log :: "trade list"

record backtest_response = backtest_result +
  alpha :: pyfloat
  backtest_id :: "int option"

definition result_to_response :: "backtest_result \<Rightarrow> int option \<Rightarrow> backtest_response" where
  "result_to_response result bid =
     backtest_result.extend result
       (backtest_response.fields (fsub (res_total_return result) (res_benchmark_return result)) bid)"

definition STRATEGY_MAP :: "(string \<times> strategy) list" where
  "STRATEGY_MAP =
     [(''composite'', CompositeScoreStrategy), (''rsi'', RSIMeanReversionStrategy),
      (''golden_cross'', GoldenCrossStrategy), (''fear_greed'', FearGreedStrategy)]"

text \<open>\<open>str.lower()\<close>, on ASCII letters.\<close>

definition lower :: "string \<Rightarrow> string" where
  "lower s = map (\<lambda>c. if 65 \<le> (of_char c :: nat) \<and> (of_char c :: nat) \<le> 90
                        then char_of ((of_char c :: nat) + 32) else c) s"

text \<open>\<open>date.fromisoformat(x) if x else default\<close>: an absent or empty argument gives the
  default. The parser of the standard library is a parameter; it raises \<open>ValueError\<close>
  on a string that is not an ISO date.\<close>

definition date_argument ::
  "(string \<Rightarrow> error + int) \<Rightarrow> string option \<Rightarrow> int \<Rightarrow> error + int" where
  "date_argument fromisoformat arg dflt =
     (case arg of
        None \<Rightarrow> Inr dflt
      | Some s \<Rightarrow> if s = [] then Inr dflt else fromisoformat s)"

text \<open>The day number of 1 January 2022.\<close>

definition date_2022_01_01 :: int where
  "date_2022_01_01 = 738156"

text \<open>The loop of \<open>compare_strategies\<close>: a run that raises is skipped, the response of
  a run that returns is appended.\<close>

fun compare_loop ::
  "(strategy \<Rightarrow> error + backtest_result) \<Rightarrow> strategy list \<Rightarrow> backtest_response list \<Rightarrow>
   backtest_response list" where
  "compare_loop run [] results = results"
| "compare_loop run (strategy_cls # rest) results =
     (case run strategy_cls of
        Inl e \<Rightarrow> compare_loop run rest results
      | Inr result \<Rightarrow> compare_loop run rest (results @ [result_to_response result None]))"

text \<open>\<open>compare_strategies\<close>. The parser of dates, today's date and the engine's
  \<open>run\<close> (which reads the database) are parameters. \<open>list.sort(key, reverse=True)\<close> is
  a stable sort of the reversed list, reversed again.\<close>

definition compare_strategies ::
  "(string \<Rightarrow> error + int) \<Rightarrow> int \<Rightarrow>
   (string \<Rightarrow> strategy \<Rightarrow> int \<Rightarrow> int \<Rightarrow> real \<Rightarrow> error + backtest_result) \<Rightarrow>
   string \<Rightarrow> string option \<Rightarrow> string option \<Rightarrow> real \<Rightarrow> error + backtest_response list" where
  "compare_strategies fromisoformat today engine_run coingecko_id start_arg end_arg capital =
     (case date_argument fromisoformat start_arg date_2022_01_01 of
        Inl e \<Rightarrow> Inl e
      | Inr start \<Rightarrow>
          (case date_argument fromisoformat end_arg today of
             Inl e \<Rightarrow> Inl e
           | Inr endd \<Rightarrow>
               (let results =
                      compare_loop (\<lambda>s. engine_run (lower coingecko_id) s start endd capital)
                        (map snd STRATEGY_MAP) []
                in if results = [] then Inl (HTTPException 500)
                   else Inr (rev (sort_key res_sharpe_ratio (rev results))))))"

section \<open>Composite score\<close>

text \<open>The three functions that \<open>_compute_composite\<close> applies to the readings, and
  \<open>Series.clip(lower, upper)\<close> on one value. A missing reading fails both comparisons
  and falls to the last branch, whose arithmetic keeps it missing.\<close>

definition rsi_score :: "pyfloat \<Rightarrow> pyfloat" where
  "rsi_score x =
     (if flt (Fin 70) x then Fin (- 1)
      else if flt x (Fin 30) then Fin 1
      else fmul (fdiv (fsub (Fin 50) x) (Fin 50)) (Fin 0.5))"

definition bb_score :: "pyfloat \<Rightarrow> pyfloat" where
  "bb_score x =
     (if flt (Fin 0.9) x then Fin (- 1)
      else if flt x (Fin 0.1) then Fin 1
      else fsub (Fin 0.5) x)"

definition fg_score :: "pyfloat \<Rightarrow> pyfloat" where
  "fg_score x =
     (if flt x (Fin 20) then Fin 1
      else if flt (Fin 80) x then Fin (- 1)
      else fmul (fdiv (fsub (Fin 50) x) (Fin 50)) (Fin 0.5))"

definition clip :: "real \<Rightarrow> real \<Rightarrow> pyfloat \<Rightarrow> pyfloat" where
  "clip lo hi x = (if flt x (Fin lo) then Fin lo else if flt (Fin hi) x then Fin hi else x)"

text \<open>\<open>Series.rolling(w, min_periods=1).max()\<close>: at each position the maximum of the
  values that are not missing among the last \<open>w\<close> positions, missing if there is none.
  \<open>Series.replace(a, b)\<close> replaces the values equal to \<open>a\<close>.\<close>

definition rolling_max :: "nat \<Rightarrow> pyfloat list \<Rightarrow> pyfloat list" where
  "rolling_max w xs =
     map (\<lambda>i. case filter (\<lambda>x. \<not> isna x) (drop (Suc i - w) (take (Suc i) xs)) of
                 [] \<Rightarrow> NaN
               | v # vs \<Rightarrow> fold fmax vs v)
         [0..<length xs]"

definition replace_value :: "pyfloat \<Rightarrow> pyfloat \<Rightarrow> pyfloat list \<Rightarrow> pyfloat list" where
  "replace_value a b xs = map (\<lambda>x. if x = a then b else x) xs"

text \<open>\<open>SignalEngine._compute_composite\<close>. Each block adds the weighted scores of a
  column to \<open>score\<close> and the column's weight to the number \<open>weights\<close>, when the frame
  has the column.\<close>

definition compute_composite :: "dataframe \<Rightarrow> pyfloat list" where
  "compute_composite df =
     (let score = replicate (length (df_index df)) (Fin 0);
          weights = (0::real);
          (score, weights) =
            (case df_cols df ''rsi_14'' of
               None \<Rightarrow> (score, weights)
             | Some col \<Rightarrow>
                 (map2 fadd score (map (\<lambda>x. fmul (rsi_score x) (Fin 0.25)) col),
                  weights + 0.25));
          (score, weights) =
            (case df_cols df ''macd_hist'' of
               None \<Rightarrow> (score, weights)
             | Some col \<Rightarrow>
                 (let macd_norm = fillna (Fin 0) col;
                      max_val = replace_value (Fin 0) (Fin 1)
                                  (rolling_max 50 (map fabs macd_norm))
                  in (map2 fadd score
                        (map (\<lambda>x. fmul (clip (- 1) 1 x) (Fin 0.25))
                           (map2 fdiv macd_norm max_val)),
                      weights + 0.25)));
          (score, weights) =
            (case df_cols df ''bb_pct'' of
               None \<Rightarrow> (score, weights)
             | Some col \<Rightarrow>
                 (map2 fadd score (map (\<lambda>x. fmul (bb_score x) (Fin 0.20)) col),
                  weights + 0.20));
          (score, weights) =
            (case df_cols df ''fear_greed_index'' of
               None \<Rightarrow> (score, weights)
             | Some col \<Rightarrow>
                 (map2 fadd score (map (\<lambda>x. fmul (fg_score x) (Fin 0.15)) col),
                  weights + 0.15))
      in map (clip (- 1) 1)
           (if 0 < weights then map (\<lambda>s. fdiv s (Fin weights)) score else score))"

text \<open>
  The score of one date in closed form, to compare with the code: the sub-score of the
  MACD histogram on date \<open>i\<close>, the weighted sum over the indicator columns that the
  frame has, and the sum of the weights of those columns.
\<close>

definition macd_sub_score :: "pyfloat list \<Rightarrow> nat \<Rightarrow> pyfloat" where
  "macd_sub_score col i =
     (let macd_norm = fillna (Fin 0) col
      in clip (- 1) 1
           (fdiv (macd_norm ! i)
              (replace_value (Fin 0) (Fin 1) (rolling_max 50 (map fabs macd_norm)) ! i)))"

definition column_term ::
  "dataframe \<Rightarrow> string \<Rightarrow> (pyfloat list \<Rightarrow> nat \<Rightarrow> pyfloat) \<Rightarrow> real \<Rightarrow> nat \<Rightarrow> pyfloat" where
  "column_term df c sub w i =
     (case df_cols df c of None \<Rightarrow> Fin 0 | Some col \<Rightarrow> fmul (sub col i) (Fin w))"

definition column_weight :: "dataframe \<Rightarrow> string \<Rightarrow> real \<Rightarrow> real" where
  "column_weight df c w = (case df_cols df c of None \<Rightarrow> 0 | Some col \<Rightarrow> w)"

definition weighted_scores :: "dataframe \<Rightarrow> nat \<Rightarrow> pyfloat" where
  "weighted_scores df i =
     fadd (fadd (fadd (fadd (Fin 0)
       (column_term df ''rsi_14'' (\<lambda>col i. rsi_score (col ! i)) 0.25 i))
       (column_term df ''macd_hist'' macd_sub_score 0.25 i))
       (column_term df ''bb_pct'' (\<lambda>col i. bb_score (col ! i)) 0.20 i))
       (column_term df ''fear_greed_index'' (\<lambda>col i. fg_score (col ! i)) 0.15 i)"

definition weight_sum :: "dataframe \<Rightarrow> real" where
  "weight_sum df =
     column_weight df ''rsi_14'' 0.25 + column_weight df ''macd_hist'' 0.25 +
     column_weight df ''bb_pct'' 0.20 + column_weight df ''fear_greed_index'' 0.15"

section \<open>The signals of a run\<close>












section \<open>Series lemmas\<close>

lemma length_fillna [simp]: "length (fillna v xs) = length xs"
  by (simp add: fillna_def)

lemma length_shift1 [simp]: "length (shift1 xs) = length xs"
  by (simp add: shift1_def)

lemma length_rsi_loop [simp]: "length (rsi_loop b xs) = length xs"
  by (induction xs arbitrary: b) (simp_all add: Let_def)

lemma length_fear_greed_loop [simp]: "length (fear_greed_loop b xs) = length xs"
  by (induction xs arbitrary: b) (simp_all add: Let_def)

lemma length_ffill_from [simp]: "length (ffill_from l xs) = length xs"
  by (induction xs arbitrary: l) simp_all

lemma length_assign_where [simp]: "length (assign_where m v xs) = min (length m) (length xs)"
  by (simp add: assign_where_def)

lemma length_generate_signals:
  assumes "wf_frame n signals_df" and "length (p_index prices) = n"
    and "generate_signals strategy prices signals_df = Inr raw"
  shows "length raw = n"
proof (cases strategy)
  case CompositeScoreStrategy
  with assms show ?thesis
    by (auto simp: composite_generate_signals_def getitem_def wf_frame_def ffill_def Let_def
        split: option.splits)
next
  case RSIMeanReversionStrategy
  with assms show ?thesis
    by (auto simp: rsi_generate_signals_def getitem_def wf_frame_def split: option.splits)
next
  case GoldenCrossStrategy
  with assms show ?thesis
    by (auto simp: golden_cross_generate_signals_def getitem_def wf_frame_def split: option.splits)
next
  case FearGreedStrategy
  with assms show ?thesis
    by (auto simp: fear_greed_generate_signals_def getitem_def wf_frame_def split: option.splits)
qed

section \<open>The first value of the equity curve\<close>

lemma portfolio_value_hd:
  assumes "p_close prices \<noteq> []" and "signals \<noteq> []"
  shows "hd (pf_portfolio_value (simulate_portfolio prices signals ic c s)) =
     Fin (ic * (1 - (if hd (fillna (Fin 0) signals) = Fin 0 then 0 else c + s)))"
proof -
  obtain c0 cs where cl: "p_close prices = c0 # cs"
    using assms(1) by (cases "p_close prices") auto
  obtain s0 ss where sg: "signals = s0 # ss"
    using assms(2) by (cases signals) auto
  show ?thesis
    unfolding simulate_portfolio_def Let_def
    apply (simp add: cl sg fillna_def shift1_def series_diff_def fillna_series_def
        pct_change_def cumprod_def fsub_def)
    apply (cases s0)
       apply (auto simp: algebra_simps)
    done
qed

lemma position_simulate [simp]:
  "pf_position (simulate_portfolio prices signals ic c s) = fillna (Fin 0) signals"
  by (simp add: simulate_portfolio_def Let_def)

text \<open>
  C1 (as amended). For every run that reaches the simulation (at least 30 rows, the
  strategy's column present), the first value of the equity curve is
  \<open>initial_capital * (1 - (commission + slippage))\<close> when the exposure on the first date
  is not 0: the first day's position counts as an entry and is charged. It is
  \<open>initial_capital\<close> exactly when the exposure on the first date is 0.
\<close>

theorem equity_first_value:
  assumes "wf_prices prices" and "wf_frame (length (p_index prices)) signals_df"
    and "run_portfolio strategy prices signals_df initial_capital commission slippage = Inr pf"
  shows "hd (pf_portfolio_value pf) =
     Fin (initial_capital *
          (1 - (if hd (pf_position pf) = Fin 0 then 0 else commission + slippage)))"
proof -
  from assms(3) have n30: "30 \<le> length (p_index prices)"
    by (auto simp: run_portfolio_def split: if_splits)
  from assms(3) obtain raw where
    raw: "generate_signals strategy prices signals_df = Inr raw" and
    pf: "pf = simulate_portfolio prices raw initial_capital commission slippage"
    by (auto simp: run_portfolio_def split: if_splits sum.splits)
  have "length raw = length (p_index prices)"
    using length_generate_signals [OF assms(2) refl raw] .
  with n30 have r: "raw \<noteq> []" by auto
  from n30 assms(1) have cl: "p_close prices \<noteq> []" by (auto simp: wf_prices_def)
  show ?thesis
    unfolding pf using portfolio_value_hd [OF cl r] by simp
qed

theorem equity_first_value_witness:
  "map_sum id (\<lambda>pf. (hd (pf_position pf), hd (pf_portfolio_value pf)))
     (run_portfolio RSIMeanReversionStrategy
        \<lparr> p_index = [1..30], p_close = replicate 30 100 \<rparr>
        \<lparr> df_index = [1..30], df_cols = [''rsi_14'' \<mapsto> replicate 30 NaN] \<rparr>
        10000 0.001 0.001) = Inr (Fin 0, Fin 10000)"
proof -
  let ?prices = "\<lparr> p_index = [1..30], p_close = replicate 30 (100::real) \<rparr>"
  let ?df = "\<lparr> df_index = [1..30], df_cols = [''rsi_14'' \<mapsto> replicate 30 NaN] \<rparr>"
  let ?pf = "simulate_portfolio ?prices (rsi_loop False (fillna (Fin 50) (replicate 30 NaN)))
               10000 0.001 0.001"
  have run: "run_portfolio RSIMeanReversionStrategy ?prices ?df 10000 0.001 0.001 = Inr ?pf"
    by (simp add: run_portfolio_def rsi_generate_signals_def getitem_def)
  have w1: "wf_prices ?prices" by (simp add: wf_prices_def)
  have w2: "wf_frame (length (p_index ?prices)) ?df" by (simp add: wf_frame_def)
  have p0: "hd (pf_position ?pf) = Fin 0" by code_simp
  from equity_first_value [OF w1 w2 run] p0
  have "hd (pf_portfolio_value ?pf) = Fin 10000" by simp
  with run p0 show ?thesis by simp
qed

theorem equity_first_value_counterexample:
  "map_sum id
     (\<lambda>pf. (hd (pf_position pf), hd (pf_portfolio_value pf),
            hd (pf_portfolio_value pf) = Fin 10000))
     (run_portfolio FearGreedStrategy
        \<lparr> p_index = [1..30], p_close = replicate 30 100 \<rparr>
        \<lparr> df_index = [1..30], df_cols = [''fear_greed_index'' \<mapsto> replicate 30 (Fin 10)] \<rparr>
        10000 0.001 0.001) = Inr (Fin 1, Fin 9980, False)"
  by code_simp

section \<open>Exposure rules of the strategies\<close>



lemma fillna_nth: "t < length xs \<Longrightarrow> fillna v xs ! t = (if isna (xs ! t) then v else xs ! t)"
  by (simp add: fillna_def)

text \<open>
  C2 (the code at the failing input). Thirty dates whose composite score is missing on
  the first 28, then 0.2, then 0: the exposure of the composite strategy is 1 on the
  29th date and back to 0 on the 30th, although the score 0 lies between the two
  thresholds. The position series starts from 0 on every date, so the forward fill has
  nothing to fill and no exposure is ever held.
\<close>

theorem composite_exposure_not_held:
  "generate_signals CompositeScoreStrategy
     \<lparr> p_index = [1..30], p_close = replicate 30 100 \<rparr>
     \<lparr> df_index = [1..30],
       df_cols = [''composite_score'' \<mapsto> replicate 28 NaN @ [Fin 0.2, Fin 0]] \<rparr>
   = Inr (replicate 28 (Fin 0) @ [Fin 1, Fin 0])"
  by code_simp




section \<open>Drawdown and Sortino ratio\<close>

lemma fle_trans: "fle a b \<Longrightarrow> fle b c \<Longrightarrow> fle a c"
  by (cases a; cases b; cases c) (auto simp: fle_def)

lemma fold_fmin_le:
  "\<not> isna v \<Longrightarrow> \<forall>x \<in> set vs. \<not> isna x \<Longrightarrow> fle (fold fmin vs v) v"
proof (induction vs arbitrary: v)
  case Nil
  then show ?case by (simp add: fle_def)
next
  case (Cons x vs)
  have a: "\<not> isna (fmin x v)"
    using Cons.prems by (simp add: fmin_def)
  have b: "fle (fmin x v) v"
    using Cons.prems by (cases x; cases v) (auto simp: fmin_def fle_def)
  from Cons.IH [OF a] Cons.prems have "fle (fold fmin vs (fmin x v)) (fmin x v)"
    by simp
  with b show ?case by (auto intro: fle_trans)
qed

lemma max_drawdown_le_0:
  assumes "r \<noteq> 0"
  shows "fle (max_drawdown (Fin r # rest)) (Fin 0)"
proof -
  obtain ds where ds:
    "map2 (\<lambda>v m. fdiv (fsub v m) m) (Fin r # rest) (cummax (Fin r # rest)) = Fin 0 # ds"
    using assms by (simp add: cummax_def fsub_def Let_def)
  have "series_min (Fin 0 # ds) = fold fmin (filter (\<lambda>x. \<not> isna x) ds) (Fin 0)"
    by (simp add: series_min_def)
  moreover have "fle (fold fmin (filter (\<lambda>x. \<not> isna x) ds) (Fin 0)) (Fin 0)"
    by (rule fold_fmin_le) auto
  ultimately show ?thesis
    by (simp add: max_drawdown_def ds)
qed

lemma zero_capital_equity:
  "pf_portfolio_value (simulate_portfolio
        \<lparr> p_index = [1..30], p_close = replicate 30 100 \<rparr> (replicate 30 (Fin 0)) 0 0.001 0.001)
   = replicate 30 (Fin 0)"
  by code_simp

lemma max_drawdown_zero_curve: "max_drawdown (replicate 30 (Fin 0)) = NaN"
  by code_simp

text \<open>
  C7 (as amended). For every equity curve whose first value is a finite number other
  than 0, \<open>max_drawdown <= 0\<close>; the curve 10000, 10100, 9900, 10200 has the maximum
  drawdown \<open>-200/10100\<close>, which is -0.0198 to four decimals.
\<close>

theorem max_drawdown_nonpositive:
  "(\<forall>r rest. r \<noteq> 0 \<longrightarrow> fle (max_drawdown (Fin r # rest)) (Fin 0)) \<and>
   max_drawdown [Fin 10000, Fin 10100, Fin 9900, Fin 10200] = Fin (- 200 / 10100)"
proof
  show "\<forall>r rest. r \<noteq> 0 \<longrightarrow> fle (max_drawdown (Fin r # rest)) (Fin 0)"
    using max_drawdown_le_0 by blast
  show "max_drawdown [Fin 10000, Fin 10100, Fin 9900, Fin 10200] = Fin (- 200 / 10100)"
    by code_simp
qed

theorem max_drawdown_nonpositive_witness:
  "(10000::real) \<noteq> 0 \<and> fle (max_drawdown (Fin 10000 # [Fin 9000, NaN, Fin 9500])) (Fin 0)"
proof -
  have h: "(10000::real) \<noteq> 0" by simp
  from max_drawdown_nonpositive
  have "(10000::real) \<noteq> 0 \<longrightarrow> fle (max_drawdown (Fin 10000 # [Fin 9000, NaN, Fin 9500])) (Fin 0)"
    by blast
  with h show ?thesis by blast
qed

theorem max_drawdown_nonpositive_counterexample:
  "(\<lambda>md. (md, fle md (Fin 0)))
    (max_drawdown (pf_portfolio_value (simulate_portfolio
        \<lparr> p_index = [1..30], p_close = replicate 30 100 \<rparr> (replicate 30 (Fin 0)) 0 0.001 0.001)))
   = (NaN, False)"
  by (simp only: zero_capital_equity max_drawdown_zero_curve) (simp add: fle_def)

text \<open>
  C10. When at most one daily strategy return is strictly negative, the Sortino ratio is
  0, whatever the annualised return: the sample standard deviation of fewer than two
  downside returns is not-a-number, and the guard \<open>downside_std > 0\<close> is then false.
\<close>

theorem sortino_zero_few_negative:
  assumes "length (filter (\<lambda>r. flt r (Fin 0)) daily_returns) \<le> 1"
  shows "sortino_ratio annualized_return daily_returns = Fin 0"
proof -
  let ?d = "filter (\<lambda>r. flt r (Fin 0)) daily_returns"
  have "length (filter (\<lambda>x. \<not> isna x) ?d) \<le> length ?d"
    by (rule length_filter_le)
  with assms have "length (filter (\<lambda>x. \<not> isna x) ?d) < 2"
    by linarith
  then have "series_std ?d = NaN"
    by (simp add: series_std_def Let_def)
  then show ?thesis
    by (simp add: sortino_ratio_def Let_def)
qed

theorem sortino_zero_few_negative_witness:
  "length (filter (\<lambda>r. flt r (Fin 0)) [Fin 0.01, Fin (- 0.02), Fin 0, NaN]) = 1 \<and>
   sortino_ratio (Fin 0.3) [Fin 0.01, Fin (- 0.02), Fin 0, NaN] = Fin 0"
proof -
  have h: "length (filter (\<lambda>r. flt r (Fin 0)) [Fin 0.01, Fin (- 0.02), Fin 0, NaN]) = 1"
    by simp
  then have "length (filter (\<lambda>r. flt r (Fin 0)) [Fin 0.01, Fin (- 0.02), Fin 0, NaN]) \<le> 1"
    by simp
  from sortino_zero_few_negative [OF this, of "Fin 0.3"] h show ?thesis
    by simp
qed

section \<open>The trade log against the exposure transitions\<close>

lemma fsub_Fin: "fsub (Fin a) (Fin b) = Fin (a - b)"
  by (simp add: fsub_def)

lemma fillna_id: "\<forall>x \<in> set xs. \<not> isna x \<Longrightarrow> fillna v xs = xs"
  by (induction xs) (simp_all add: fillna_def)

lemma zip_butlast_Cons: "zip es (butlast (e # es)) = zip es (e # butlast es)"
  by (cases es) simp_all

lemma changes_Cons:
  "map2 fsub (e # es) (p # butlast (e # es)) = fsub e p # map2 fsub es (e # butlast es)"
  using zip_butlast_Cons [of es e] by simp

lemma fillna_series_id:
  "\<forall>x \<in> set xs. \<not> isna x \<Longrightarrow> length xs \<le> length other \<Longrightarrow> fillna_series other xs = xs"
proof (induction xs arbitrary: other)
  case Nil
  then show ?case by (simp add: fillna_series_def)
next
  case (Cons x xs)
  then obtain y ys where "other = y # ys" by (cases other) auto
  with Cons show ?case by (simp add: fillna_series_def)
qed

lemma changes_notna:
  "set es \<subseteq> {Fin 0, Fin 1} \<Longrightarrow> p \<in> {Fin 0, Fin 1} \<Longrightarrow>
   \<forall>x \<in> set (map2 fsub es (p # butlast es)). \<not> isna x"
proof (induction es arbitrary: p)
  case Nil
  then show ?case by simp
next
  case (Cons e es)
  have "\<not> isna (fsub e p)" using Cons.prems by (auto simp: fsub_def)
  moreover have "\<forall>x \<in> set (map2 fsub es (e # butlast es)). \<not> isna x"
    using Cons.IH [of e] Cons.prems by simp
  ultimately show ?case
    unfolding changes_Cons by simp
qed

lemma position_changes_binary:
  assumes "set es \<subseteq> {Fin 0, Fin 1}"
  shows "fillna_series es (series_diff es) = map2 fsub es (Fin 0 # butlast es)"
proof (cases es)
  case Nil
  then show ?thesis by (simp add: fillna_series_def series_diff_def shift1_def)
next
  case (Cons e rest)
  have e: "e = Fin 0 \<or> e = Fin 1" using assms Cons by auto
  have rest: "\<forall>x \<in> set (map2 fsub rest (e # butlast rest)). \<not> isna x"
    using changes_notna [of rest e] assms Cons by simp
  have "series_diff es = NaN # map2 fsub rest (e # butlast rest)"
    using e unfolding series_diff_def shift1_def Cons
    by (auto simp: changes_Cons fsub_def)
  moreover have "fillna_series rest (map2 fsub rest (e # butlast rest)) = map2 fsub rest (e # butlast rest)"
    using rest by (intro fillna_series_id) simp_all
  ultimately have "fillna_series es (series_diff es) = e # map2 fsub rest (e # butlast rest)"
    unfolding Cons by (simp add: fillna_series_def)
  moreover have "fsub e (Fin 0) = e" using e by (auto simp: fsub_def)
  ultimately show ?thesis
    unfolding Cons changes_Cons by simp
qed

lemma make_trade_spec:
  "q \<noteq> 0 \<Longrightarrow> make_trade d q d' c = Inr (spec_trade d q d' c)"
  by (simp add: make_trade_def spec_trade_def Let_def diff_divide_distrib)

lemma trade_loop_spec:
  assumes "set es \<subseteq> {Fin 0, Fin 1}" and "p \<in> {Fin 0, Fin 1}"
    and "length ds = length es" and "length cs = length es"
    and "\<forall>c \<in> set cs. c \<noteq> 0"
    and "(entry = None \<and> p = Fin 0 \<and> st = FLAT) \<or>
         (\<exists>d q. entry = Some (d, q) \<and> q \<noteq> 0 \<and> p = Fin 1 \<and> st = LONG d q)"
  shows "(case trade_loop entry trades
                 (zip ds (zip cs (zip (map (\<lambda>x. flt (Fin 0) x) (map2 fsub es (p # butlast es)))
                                      (map (\<lambda>x. flt x (Fin 0)) (map2 fsub es (p # butlast es)))))) of
            Inl e \<Rightarrow> Inl e
          | Inr (en, ts) \<Rightarrow> close_open_position en ts fd fc)
         = Inr (trades @ spec_trade_log st (zip ds (zip cs es)) (fd, fc))"
  using assms
proof (induction es arbitrary: ds cs p entry trades st)
  case Nil
  then show ?case
    by (auto simp: close_open_position_def make_trade_spec)
next
  case (Cons e es)
  obtain d ds' where ds: "ds = d # ds'" using Cons.prems(3) by (cases ds) auto
  obtain c cs' where cs: "cs = c # cs'" using Cons.prems(4) by (cases cs) auto
  have e: "e = Fin 0 \<or> e = Fin 1" using Cons.prems(1) by auto
  have c0: "c \<noteq> 0" using Cons.prems(5) cs by simp
  have es: "set es \<subseteq> {Fin 0, Fin 1}" using Cons.prems(1) by simp
  have len: "length ds' = length es" "length cs' = length es"
    using Cons.prems(3,4) ds cs by simp_all
  have cs': "\<forall>c \<in> set cs'. c \<noteq> 0" using Cons.prems(5) cs by simp
  have ein: "e \<in> {Fin 0, Fin 1}" using e by auto
  note IH = Cons.IH [OF es ein len cs']
  from Cons.prems(6) show ?case
  proof (elim disjE conjE exE)
    assume st: "entry = None" "p = Fin 0" "st = FLAT"
    from e show ?thesis
    proof
      assume e0: "e = Fin 0"
      have "(entry = None \<and> e = Fin 0 \<and> st = FLAT) \<or>
            (\<exists>d q. entry = Some (d, q) \<and> q \<noteq> 0 \<and> e = Fin 1 \<and> st = LONG d q)"
        using st e0 by simp
      from IH [OF this, of trades] show ?thesis
        unfolding ds cs changes_Cons using st e0 by (simp add: fsub_Fin)
    next
      assume e1: "e = Fin 1"
      have "(Some (d, c) = None \<and> e = Fin 0 \<and> LONG d c = FLAT) \<or>
            (\<exists>d' q. Some (d, c) = Some (d', q) \<and> q \<noteq> 0 \<and> e = Fin 1 \<and> LONG d c = LONG d' q)"
        using e1 c0 by simp
      from IH [OF this, of trades] show ?thesis
        unfolding ds cs changes_Cons using st e1 by (simp add: fsub_Fin)
    qed
  next
    fix d0 q
    assume st: "entry = Some (d0, q)" "q \<noteq> 0" "p = Fin 1" "st = LONG d0 q"
    from e show ?thesis
    proof
      assume e0: "e = Fin 0"
      have "((None::(int \<times> real) option) = None \<and> e = Fin 0 \<and> FLAT = FLAT) \<or>
            (\<exists>d' q'. (None::(int \<times> real) option) = Some (d', q') \<and> q' \<noteq> 0 \<and> e = Fin 1 \<and> FLAT = LONG d' q')"
        using e0 by simp
      from IH [OF this, of "trades @ [spec_trade d0 q d c]"] show ?thesis
        unfolding ds cs changes_Cons using st e0 by (simp add: fsub_Fin make_trade_spec)
    next
      assume e1: "e = Fin 1"
      have "(entry = None \<and> e = Fin 0 \<and> st = FLAT) \<or>
            (\<exists>d q. entry = Some (d, q) \<and> q \<noteq> 0 \<and> e = Fin 1 \<and> st = LONG d q)"
        using st e1 by simp
      from IH [OF this, of trades] show ?thesis
        unfolding ds cs changes_Cons using st e1 by (simp add: fsub_Fin)
    qed
  qed
qed

lemma build_trade_log_spec:
  assumes "set es \<subseteq> {Fin 0, Fin 1}"
    and "length ds = length es" and "length cs = length es"
    and "\<forall>c \<in> set cs. c \<noteq> 0"
  shows "build_trade_log (simulate_portfolio \<lparr> p_index = ds, p_close = cs \<rparr> es ic co sl)
         = Inr (spec_trade_log FLAT (zip ds (zip cs es)) (last ds, last cs))"
proof -
  have na: "\<forall>x \<in> set es. \<not> isna x" using assms(1) by auto
  have f: "fillna (Fin 0) es = es" using na by (rule fillna_id)
  have pc: "fillna_series es (series_diff es) = map2 fsub es (Fin 0 # butlast es)"
    using assms(1) by (rule position_changes_binary)
  have "(entry = None \<and> Fin 0 = Fin 0 \<and> FLAT = FLAT) \<or>
         (\<exists>d q. entry = Some (d, q) \<and> q \<noteq> 0 \<and> Fin 0 = Fin 1 \<and> FLAT = LONG d q)"
    if "entry = None" for entry :: "(int \<times> real) option"
    using that by simp
  then have r: "((None::(int \<times> real) option) = None \<and> Fin 0 = Fin 0 \<and> FLAT = FLAT) \<or>
         (\<exists>d q. (None::(int \<times> real) option) = Some (d, q) \<and> q \<noteq> 0 \<and> Fin 0 = Fin 1 \<and> FLAT = LONG d q)"
    by simp
  have p0: "Fin 0 \<in> {Fin 0, Fin 1}" by simp
  from trade_loop_spec [OF assms(1) p0 assms(2,3,4) r, where trades = "[]" and fd = "last ds" and fc = "last cs"]
  show ?thesis
    by (simp add: build_trade_log_def simulate_portfolio_def Let_def f pc split: sum.splits prod.splits)
qed


text \<open>
  C6 (as amended). For every exposure series of zeros and ones over nonzero closes, the
  trade log of the simulated portfolio is the log of the two-state machine: a trade
  opens at each change of the exposure from 0 to 1 (an exposure of 1 on the first date
  included), with that day's close as entry price, and closes at the next change from 1
  to 0, or at the final date if it is still open. The log records the entry price, the
  exit price and the return \<open>exit / entry - 1\<close> rounded to six decimals, and the
  duration in days. An exposure 0, 1, 0 at closes 40, 50, 60 gives one trade with entry
  price 50, exit price 60, return 0.2, profitable.
\<close>

theorem trade_log_follows_transitions:
  "(\<forall>es ds cs ic co sl.
      set es \<subseteq> {Fin 0, Fin 1} \<and> length ds = length es \<and> length cs = length es \<and>
      (\<forall>c \<in> set cs. c \<noteq> 0) \<longrightarrow>
      build_trade_log (simulate_portfolio \<lparr> p_index = ds, p_close = cs \<rparr> es ic co sl)
        = Inr (spec_trade_log FLAT (zip ds (zip cs es)) (last ds, last cs))) \<and>
   build_trade_log (simulate_portfolio \<lparr> p_index = [10, 11, 14], p_close = [40, 50, 60] \<rparr>
        [Fin 0, Fin 1, Fin 0] 10000 0.001 0.001)
     = Inr [\<lparr> entry_date = 11, exit_date = 14, entry_price = 50, exit_price = 60,
              trade_return = 0.2, duration_days = 3, profitable = True \<rparr>]"
proof (intro conjI allI impI)
  fix es :: "pyfloat list" and ds :: "int list" and cs :: "real list" and ic co sl :: real
  assume h: "set es \<subseteq> {Fin 0, Fin 1} \<and> length ds = length es \<and> length cs = length es \<and>
      (\<forall>c \<in> set cs. c \<noteq> 0)"
  from h have h1: "set es \<subseteq> {Fin 0, Fin 1}" by (rule conjunct1)
  from h have h2: "length ds = length es" by (elim conjE)
  from h have h3: "length cs = length es" by (elim conjE)
  from h have h4: "\<forall>c \<in> set cs. c \<noteq> 0" by (elim conjE)
  show "build_trade_log (simulate_portfolio \<lparr> p_index = ds, p_close = cs \<rparr> es ic co sl)
        = Inr (spec_trade_log FLAT (zip ds (zip cs es)) (last ds, last cs))"
    by (rule build_trade_log_spec [OF h1 h2 h3 h4])
next
  show "build_trade_log (simulate_portfolio \<lparr> p_index = [10, 11, 14], p_close = [40, 50, 60] \<rparr>
        [Fin 0, Fin 1, Fin 0] 10000 0.001 0.001)
     = Inr [\<lparr> entry_date = 11, exit_date = 14, entry_price = 50, exit_price = 60,
              trade_return = 0.2, duration_days = 3, profitable = True \<rparr>]"
    by code_simp
qed

theorem trade_log_follows_transitions_witness:
  "build_trade_log (simulate_portfolio \<lparr> p_index = [1, 2, 5, 6], p_close = [3, 3, 4, 5] \<rparr>
        [Fin 1, Fin 1, Fin 0, Fin 1] 10000 0.001 0.001)
     = Inr (spec_trade_log FLAT
              (zip [1, 2, 5, 6] (zip [3, 3, 4, 5] [Fin 1, Fin 1, Fin 0, Fin 1])) (6, 5)) \<and>
   spec_trade_log FLAT (zip [1, 2, 5, 6] (zip [3, 3, 4, 5] [Fin 1, Fin 1, Fin 0, Fin 1])) (6, 5)
     = [\<lparr> entry_date = 1, exit_date = 5, entry_price = 3, exit_price = 4,
           trade_return = 333333 / 1000000, duration_days = 4, profitable = True \<rparr>,
        \<lparr> entry_date = 6, exit_date = 6, entry_price = 5, exit_price = 5,
           trade_return = 0, duration_days = 0, profitable = False \<rparr>]"
proof
  have h: "set [Fin 1, Fin 1, Fin 0, Fin 1] \<subseteq> {Fin 0, Fin 1} \<and>
      length [1, 2, 5, 6 :: int] = length [Fin 1, Fin 1, Fin 0, Fin 1] \<and>
      length [3, 3, 4, 5 :: real] = length [Fin 1, Fin 1, Fin 0, Fin 1] \<and>
      (\<forall>c \<in> set [3, 3, 4, 5 :: real]. c \<noteq> 0)"
    by simp
  from trade_log_follows_transitions [THEN conjunct1, rule_format,
      of "[Fin 1, Fin 1, Fin 0, Fin 1]" "[1, 2, 5, 6]" "[3, 3, 4, 5]" 10000 "0.001" "0.001", OF h]
  show "build_trade_log (simulate_portfolio \<lparr> p_index = [1, 2, 5, 6], p_close = [3, 3, 4, 5] \<rparr>
        [Fin 1, Fin 1, Fin 0, Fin 1] 10000 0.001 0.001)
     = Inr (spec_trade_log FLAT
              (zip [1, 2, 5, 6] (zip [3, 3, 4, 5] [Fin 1, Fin 1, Fin 0, Fin 1])) (6, 5))"
    by simp
  show "spec_trade_log FLAT (zip [1, 2, 5, 6] (zip [3, 3, 4, 5] [Fin 1, Fin 1, Fin 0, Fin 1])) (6, 5)
     = [\<lparr> entry_date = 1, exit_date = 5, entry_price = 3, exit_price = 4,
           trade_return = 333333 / 1000000, duration_days = 4, profitable = True \<rparr>,
        \<lparr> entry_date = 6, exit_date = 6, entry_price = 5, exit_price = 5,
           trade_return = 0, duration_days = 0, profitable = False \<rparr>]"
    by code_simp
qed

theorem trade_log_follows_transitions_counterexample:
  "map_sum id
     (map (\<lambda>t. (entry_price t, exit_price t, trade_return t,
                trade_return t = exit_price t / entry_price t - 1)))
     (build_trade_log (simulate_portfolio \<lparr> p_index = [10, 11, 14], p_close = [3, 3, 4] \<rparr>
        [Fin 0, Fin 1, Fin 0] 10000 0.001 0.001))
   = Inr [(3, 4, 333333 / 1000000, False)]"
  by code_simp

section \<open>Comparison of the strategies\<close>

lemma compare_loop_eq:
  "compare_loop run ss acc =
     acc @ List.map_filter
             (\<lambda>s. case run s of Inl e \<Rightarrow> None | Inr r \<Rightarrow> Some (result_to_response r None)) ss"
  by (induction ss arbitrary: acc) (auto simp: List.map_filter_simps split: sum.splits)

lemma compare_loop_Nil_iff:
  "compare_loop run ss [] = [] \<longleftrightarrow> (\<forall>s \<in> set ss. isl (run s))"
  unfolding compare_loop_eq
  by (induction ss) (auto simp: List.map_filter_simps split: sum.splits)

lemma mset_compare_loop:
  "mset (compare_loop run ss []) =
     image_mset (\<lambda>s. result_to_response (projr (run s)) None)
       (filter_mset (\<lambda>s. \<not> isl (run s)) (mset ss))"
  unfolding compare_loop_eq
  by (induction ss) (auto simp: List.map_filter_simps split: sum.splits)

lemma sorted_descending:
  "sorted_wrt (\<lambda>a b. f b \<le> f a) (rev (sort_key f xs))"
  using sorted_sort_key [of f xs]
  by (simp add: sorted_wrt_rev sorted_map)

lemma compare_strategies_parsed:
  assumes "date_argument fromisoformat start_arg date_2022_01_01 = Inr start"
    and "date_argument fromisoformat end_arg today = Inr endd"
  shows "compare_strategies fromisoformat today engine_run coingecko_id start_arg end_arg capital =
     (let results = compare_loop (\<lambda>s. engine_run (lower coingecko_id) s start endd capital)
                        (map snd STRATEGY_MAP) []
      in if results = [] then Inl (HTTPException 500)
         else Inr (rev (sort_key res_sharpe_ratio (rev results))))"
  using assms by (simp add: compare_strategies_def)


text \<open>
  C9 (as amended). When the two date arguments are absent, empty or valid ISO dates, the
  comparison fails exactly when the run of every variant failed; otherwise it returns
  the responses of exactly the variants whose run returned (a variant whose run raises
  is left out), sorted by Sharpe ratio in descending order.
\<close>

theorem compare_strategies_result:
  assumes "date_argument fromisoformat start_arg date_2022_01_01 = Inr start"
    and "date_argument fromisoformat end_arg today = Inr endd"
  shows
    "(isl (compare_strategies fromisoformat today engine_run coingecko_id start_arg end_arg capital)
        \<longleftrightarrow> (\<forall>s \<in> set (map snd STRATEGY_MAP).
               isl (engine_run (lower coingecko_id) s start endd capital))) \<and>
     (\<forall>rs. compare_strategies fromisoformat today engine_run coingecko_id start_arg end_arg capital
             = Inr rs \<longrightarrow>
        mset rs =
          image_mset (\<lambda>s. result_to_response
                            (projr (engine_run (lower coingecko_id) s start endd capital)) None)
            (filter_mset (\<lambda>s. \<not> isl (engine_run (lower coingecko_id) s start endd capital))
               (mset (map snd STRATEGY_MAP))) \<and>
        sorted_wrt (\<lambda>a b. res_sharpe_ratio b \<le> res_sharpe_ratio a) rs)"
proof -
  let ?run = "\<lambda>s. engine_run (lower coingecko_id) s start endd capital"
  let ?results = "compare_loop ?run (map snd STRATEGY_MAP) []"
  let ?cmp = "compare_strategies fromisoformat today engine_run coingecko_id start_arg end_arg capital"
  have cmp: "?cmp = (if ?results = [] then Inl (HTTPException 500)
                     else Inr (rev (sort_key res_sharpe_ratio (rev ?results))))"
    using compare_strategies_parsed [OF assms] by (simp add: Let_def)
  have fails: "isl ?cmp \<longleftrightarrow> (\<forall>s \<in> set (map snd STRATEGY_MAP). isl (?run s))"
    using compare_loop_Nil_iff [of ?run "map snd STRATEGY_MAP"] by (simp add: cmp)
  have ok: "mset rs = image_mset (\<lambda>s. result_to_response (projr (?run s)) None)
            (filter_mset (\<lambda>s. \<not> isl (?run s)) (mset (map snd STRATEGY_MAP))) \<and>
        sorted_wrt (\<lambda>a b. res_sharpe_ratio b \<le> res_sharpe_ratio a) rs"
    if "?cmp = Inr rs" for rs
  proof -
    from that have rs: "rs = rev (sort_key res_sharpe_ratio (rev ?results))"
      by (simp add: cmp split: if_splits)
    have "mset rs = mset ?results" by (simp add: rs)
    with mset_compare_loop [of ?run "map snd STRATEGY_MAP"] sorted_descending [of res_sharpe_ratio "rev ?results"]
    show ?thesis by (simp add: rs)
  qed
  from fails ok show ?thesis by blast
qed


theorem compare_strategies_result_witness:
  "\<forall>r. date_argument (\<lambda>s. if s = ''2024-01-31'' then Inr 738916 else Inl ValueError)
         (Some ''2024-01-31'') date_2022_01_01 = Inr 738916 \<and>
       date_argument (\<lambda>s. if s = ''2024-01-31'' then Inr 738916 else Inl ValueError)
         None 739000 = Inr 739000 \<and>
       \<not> isl (compare_strategies
                (\<lambda>s. if s = ''2024-01-31'' then Inr 738916 else Inl ValueError) 739000
                (\<lambda>cid s st en cap. if s = RSIMeanReversionStrategy then Inr r else Inl KeyError)
                ''Bitcoin'' (Some ''2024-01-31'') None 10000)"
proof
  fix r :: backtest_result
  let ?f = "\<lambda>s. if s = ''2024-01-31'' then Inr 738916 else Inl ValueError"
  let ?run = "\<lambda>(cid::string) s (st::int) (en::int) (cap::real).
                if s = RSIMeanReversionStrategy then Inr r else Inl KeyError"
  have a: "date_argument ?f (Some ''2024-01-31'') date_2022_01_01 = Inr 738916"
    by (simp add: date_argument_def)
  have b: "date_argument ?f None 739000 = Inr 739000"
    by (simp add: date_argument_def)
  from compare_strategies_result [OF a b, of ?run "''Bitcoin''" 10000, THEN conjunct1]
  have "\<not> isl (compare_strategies ?f 739000 ?run ''Bitcoin'' (Some ''2024-01-31'') None 10000)"
    by (simp add: STRATEGY_MAP_def)
  with a b show "date_argument ?f (Some ''2024-01-31'') date_2022_01_01 = Inr 738916 \<and>
       date_argument ?f None 739000 = Inr 739000 \<and>
       \<not> isl (compare_strategies ?f 739000 ?run ''Bitcoin'' (Some ''2024-01-31'') None 10000)"
    by blast
qed

theorem compare_strategies_result_counterexample:
  "compare_strategies
     (\<lambda>s. if s = ''2024-01-31'' then Inr 738916 else Inl ValueError) 739000
     (\<lambda>cid s st en cap.
        Inr \<lparr> res_coin = ''bitcoin'', res_symbol = ''BTC'', res_strategy_name = ''any'',
                res_strategy_params = [], res_start_date = 738156, res_end_date = 739000,
                res_initial_capital = 10000, res_total_return = Fin 0,
                res_annualized_return = Fin 0, res_benchmark_return = Fin 0,
                res_sharpe_ratio = 0, res_sortino_ratio = Fin 0, res_calmar_ratio = Fin 0,
                res_max_drawdown = Fin 0, res_volatility_annualized = Fin 0, res_win_rate = 0,
                res_total_trades = 0, res_avg_trade_duration_days = 0,
                res_equity_curve = [], res_trade_log = [] \<rparr>)
     ''bitcoin'' (Some ''garbage'') None 10000
   = Inl ValueError"
  by (simp add: compare_strategies_def date_argument_def)

section \<open>The composite score, date by date\<close>

lemma fadd_0_right [simp]: "fadd x (Fin 0) = x"
  by (cases x) simp_all

lemma fadd_NaN_right [simp]: "fadd x NaN = NaN"
  by (cases x) simp_all

lemma length_rolling_max [simp]: "length (rolling_max w xs) = length xs"
  by (simp add: rolling_max_def)

lemma length_replace_value [simp]: "length (replace_value a b xs) = length xs"
  by (simp add: replace_value_def)


lemma composite_nth:
  assumes "wf_frame n df" and "i < n"
  shows "compute_composite df ! i =
     clip (- 1) 1 (if 0 < weight_sum df then fdiv (weighted_scores df i) (Fin (weight_sum df))
                   else weighted_scores df i)"
proof -
  have len: "length col = n" if "df_cols df c = Some col" for c col
    using assms(1) that by (auto simp: wf_frame_def)
  have n: "length (df_index df) = n"
    using assms(1) by (simp add: wf_frame_def)
  show ?thesis
    unfolding compute_composite_def weighted_scores_def weight_sum_def column_term_def
      column_weight_def macd_sub_score_def Let_def
    using assms(2) n
    by (auto simp: len split: option.splits)
qed

lemma column_weight_nonneg: "0 \<le> w \<Longrightarrow> 0 \<le> column_weight df c w"
  by (simp add: column_weight_def split: option.splits)

lemma weight_sum_pos:
  assumes "df_cols df c = Some col" and "c \<in> {''rsi_14'', ''bb_pct'', ''fear_greed_index''}"
  shows "0 < weight_sum df"
proof -
  have a: "0 \<le> column_weight df ''rsi_14'' 0.25" "0 \<le> column_weight df ''macd_hist'' 0.25"
    "0 \<le> column_weight df ''bb_pct'' 0.20" "0 \<le> column_weight df ''fear_greed_index'' 0.15"
    by (simp_all add: column_weight_nonneg)
  from assms have "0 < column_weight df ''rsi_14'' 0.25 \<or> 0 < column_weight df ''bb_pct'' 0.20 \<or>
      0 < column_weight df ''fear_greed_index'' 0.15"
    by (auto simp: column_weight_def)
  with a show ?thesis
    unfolding weight_sum_def by linarith
qed

lemma rsi_score_NaN [simp]: "rsi_score NaN = NaN"
  by (simp add: rsi_score_def fsub_def)

lemma bb_score_NaN [simp]: "bb_score NaN = NaN"
  by (simp add: bb_score_def fsub_def)

lemma fg_score_NaN [simp]: "fg_score NaN = NaN"
  by (simp add: fg_score_def fsub_def)

lemma weighted_scores_missing:
  assumes "df_cols df c = Some col" and "col ! i = NaN"
    and "c \<in> {''rsi_14'', ''bb_pct'', ''fear_greed_index''}"
  shows "weighted_scores df i = NaN"
proof -
  from assms(3) consider "c = ''rsi_14''" | "c = ''bb_pct''" | "c = ''fear_greed_index''"
    by blast
  then show ?thesis
  proof cases
    case 1
    with assms(1,2) have "column_term df ''rsi_14'' (\<lambda>col i. rsi_score (col ! i)) 0.25 i = NaN"
      by (simp add: column_term_def)
    then show ?thesis by (simp add: weighted_scores_def)
  next
    case 2
    with assms(1,2) have "column_term df ''bb_pct'' (\<lambda>col i. bb_score (col ! i)) 0.20 i = NaN"
      by (simp add: column_term_def)
    then show ?thesis by (simp add: weighted_scores_def)
  next
    case 3
    with assms(1,2)
    have "column_term df ''fear_greed_index'' (\<lambda>col i. fg_score (col ! i)) 0.15 i = NaN"
      by (simp add: column_term_def)
    then show ?thesis by (simp add: weighted_scores_def)
  qed
qed

lemma fold_fmax_notna:
  "\<not> isna v \<Longrightarrow> \<forall>x \<in> set vs. \<not> isna x \<Longrightarrow> \<not> isna (fold fmax vs v)"
proof (induction vs arbitrary: v)
  case Nil
  then show ?case by simp
next
  case (Cons x vs)
  have a: "\<not> isna (fmax x v)"
    using Cons.prems by (simp add: fmax_def)
  from Cons.IH [OF a] Cons.prems show ?case
    by simp
qed

lemma window_max_notna:
  assumes "x \<in> set ys" and "\<not> isna x"
  shows "\<not> isna (case filter (\<lambda>x. \<not> isna x) ys of [] \<Rightarrow> NaN | v # vs \<Rightarrow> fold fmax vs v)"
proof (cases "filter (\<lambda>x. \<not> isna x) ys")
  case Nil
  with assms show ?thesis
    by (simp only: filter_empty_conv)
next
  case (Cons v vs)
  have "\<forall>y \<in> set (filter (\<lambda>x. \<not> isna x) ys). \<not> isna y"
    by simp
  then have "\<not> isna v" and "\<forall>y \<in> set vs. \<not> isna y"
    unfolding Cons by simp_all
  then have "\<not> isna (fold fmax vs v)"
    by (rule fold_fmax_notna)
  then show ?thesis
    unfolding Cons by simp
qed

lemma rolling_max_nth:
  "i < length xs \<Longrightarrow>
   rolling_max w xs ! i =
     (case filter (\<lambda>x. \<not> isna x) (drop (Suc i - w) (take (Suc i) xs)) of
        [] \<Rightarrow> NaN | v # vs \<Rightarrow> fold fmax vs v)"
  unfolding rolling_max_def by (simp only: nth_map length_upt nth_upt minus_nat.diff_0 add_0)

lemma rolling_max_notna:
  assumes "i < length xs" and "\<not> isna (xs ! i)" and "0 < w"
  shows "\<not> isna (rolling_max w xs ! i)"
proof -
  have k: "Suc i - w - i = 0"
    using assms(3) by arith
  have li: "length (take i xs) = i"
    using assms(1) by simp
  have "take (Suc i) xs = take i xs @ [xs ! i]"
    using assms(1) by (rule take_Suc_conv_app_nth)
  then have "drop (Suc i - w) (take (Suc i) xs) = drop (Suc i - w) (take i xs) @ [xs ! i]"
    by (simp only: drop_append li k drop_0)
  then have "xs ! i \<in> set (drop (Suc i - w) (take (Suc i) xs))"
    by (simp only: set_append list.set Un_iff insertI1 simp_thms)
  then show ?thesis
    unfolding rolling_max_nth [OF assms(1)] using assms(2) by (rule window_max_notna)
qed

lemma macd_sub_score_missing:
  assumes "i < length col" and "col ! i = NaN"
  shows "macd_sub_score col i = Fin 0"
proof -
  let ?m = "fillna (Fin 0) col"
  let ?r = "rolling_max 50 (map fabs ?m) ! i"
  have m: "?m ! i = Fin 0"
    using assms by (simp add: fillna_nth)
  have "\<not> isna (map fabs ?m ! i)"
    using assms m by (simp add: fabs_def)
  then have r: "\<not> isna ?r"
    using assms(1) by (intro rolling_max_notna) simp_all
  have "fdiv (Fin 0) (if ?r = Fin 0 then Fin 1 else ?r) = Fin 0"
    using r by (cases ?r) auto
  then show ?thesis
    using assms(1) m by (simp add: macd_sub_score_def Let_def replace_value_def clip_def)
qed

text \<open>
  C3 (as amended). For every date, the composite score is the weighted sum of the
  sub-scores of the indicator columns that the frame has, divided by the sum of the
  weights of those columns - one denominator for all dates - and clamped to [-1, 1]. A
  value missing on a date is not left out of the sum: a missing RSI, Bollinger or
  sentiment value makes the score of that date missing, and a missing MACD histogram
  counts as the sub-score 0 while its weight stays in the denominator. If the frame has
  none of the four columns, the score is 0.
\<close>

theorem composite_score_weights:
  assumes "wf_frame n df" and "i < n"
  shows "compute_composite df ! i =
           clip (- 1) 1
             (if 0 < weight_sum df then fdiv (weighted_scores df i) (Fin (weight_sum df))
              else weighted_scores df i) \<and>
         (\<forall>c col. c \<in> {''rsi_14'', ''bb_pct'', ''fear_greed_index''} \<and>
                  df_cols df c = Some col \<and> col ! i = NaN \<longrightarrow>
                  compute_composite df ! i = NaN) \<and>
         (\<forall>col. df_cols df ''macd_hist'' = Some col \<and> col ! i = NaN \<longrightarrow>
                column_term df ''macd_hist'' macd_sub_score 0.25 i = Fin 0 \<and>
                column_weight df ''macd_hist'' 0.25 = 0.25) \<and>
         (df_cols df ''rsi_14'' = None \<and> df_cols df ''macd_hist'' = None \<and>
          df_cols df ''bb_pct'' = None \<and> df_cols df ''fear_greed_index'' = None \<longrightarrow>
          compute_composite df ! i = Fin 0)"
proof (intro conjI allI impI)
  show f: "compute_composite df ! i =
           clip (- 1) 1
             (if 0 < weight_sum df then fdiv (weighted_scores df i) (Fin (weight_sum df))
              else weighted_scores df i)"
    using assms by (rule composite_nth)
  {
    fix c col
    assume h: "c \<in> {''rsi_14'', ''bb_pct'', ''fear_greed_index''} \<and>
               df_cols df c = Some col \<and> col ! i = NaN"
    then have "weighted_scores df i = NaN" and "0 < weight_sum df"
      using weighted_scores_missing [of df c col i] weight_sum_pos [of df c col] by blast+
    then show "compute_composite df ! i = NaN"
      by (simp add: f clip_def)
  next
    fix col
    assume h: "df_cols df ''macd_hist'' = Some col \<and> col ! i = NaN"
    with assms have "i < length col"
      by (auto simp: wf_frame_def)
    with h show "column_term df ''macd_hist'' macd_sub_score 0.25 i = Fin 0"
      by (simp add: column_term_def macd_sub_score_missing)
    from h show "column_weight df ''macd_hist'' 0.25 = 0.25"
      by (simp add: column_weight_def)
  next
    assume "df_cols df ''rsi_14'' = None \<and> df_cols df ''macd_hist'' = None \<and>
          df_cols df ''bb_pct'' = None \<and> df_cols df ''fear_greed_index'' = None"
    then show "compute_composite df ! i = Fin 0"
      by (simp add: f weight_sum_def weighted_scores_def column_weight_def column_term_def
          clip_def)
  }
qed

theorem composite_score_weights_witness:
  "compute_composite
     \<lparr> df_index = [1, 2],
       df_cols = [''rsi_14'' \<mapsto> [Fin 20, NaN], ''macd_hist'' \<mapsto> [NaN, Fin 2],
                  ''bb_pct'' \<mapsto> [Fin 0.5, Fin 0.5]] \<rparr> ! 1 = NaN \<and>
   column_term
     \<lparr> df_index = [1, 2],
       df_cols = [''rsi_14'' \<mapsto> [Fin 20, NaN], ''macd_hist'' \<mapsto> [NaN, Fin 2],
                  ''bb_pct'' \<mapsto> [Fin 0.5, Fin 0.5]] \<rparr> ''macd_hist'' macd_sub_score 0.25 0 = Fin 0"
proof -
  let ?df = "\<lparr> df_index = [1, 2],
       df_cols = [''rsi_14'' \<mapsto> [Fin 20, NaN], ''macd_hist'' \<mapsto> [NaN, Fin 2],
                  ''bb_pct'' \<mapsto> [Fin 0.5, Fin 0.5]] \<rparr>"
  have wf: "wf_frame 2 ?df" by (simp add: wf_frame_def)
  have i1: "(1::nat) < 2" and i0: "(0::nat) < 2" by simp_all
  have r: "''rsi_14'' \<in> {''rsi_14'', ''bb_pct'', ''fear_greed_index''} \<and>
           df_cols ?df ''rsi_14'' = Some [Fin 20, NaN] \<and> [Fin 20, NaN] ! 1 = NaN"
    by simp
  have m: "df_cols ?df ''macd_hist'' = Some [NaN, Fin 2] \<and> [NaN, Fin 2] ! 0 = NaN"
    by simp
  from composite_score_weights [OF wf i1, THEN conjunct2, THEN conjunct1, rule_format, OF r]
  have a: "compute_composite ?df ! 1 = NaN" .
  from composite_score_weights [OF wf i0, THEN conjunct2, THEN conjunct2, THEN conjunct1,
      rule_format, OF m]
  have b: "column_term ?df ''macd_hist'' macd_sub_score 0.25 0 = Fin 0"
    by (rule conjunct1)
  from a b show ?thesis by (rule conjI)
qed

theorem composite_score_weights_counterexample:
  "compute_composite
     \<lparr> df_index = [1..21],
       df_cols = [''rsi_14'' \<mapsto> replicate 13 NaN @ replicate 8 (Fin 20),
                  ''macd_hist'' \<mapsto> replicate 21 NaN,
                  ''bb_pct'' \<mapsto> replicate 19 NaN @ [Fin 0.5, Fin 0.5]] \<rparr> ! 20 = Fin (5 / 14) \<and>
   (5 / 14 :: real) \<noteq> (0.25 * 1 + 0.20 * 0) / (0.25 + 0.20)"
  by code_simp




section \<open>No lookahead in the exposures\<close>























end
